theory Spec2Isabelle
  imports Complex_Main
begin

section \<open>Exceptions\<close>

text \<open>The exceptions that the modelled code can raise.\<close>

datatype py_error = ZeroDivisionError | IndexError | AttributeError | ValueError
  | XGC_Loader_Error string

section \<open>Plane bracketing\<close>

text \<open>
  \<^verbatim>\<open>get_interp_planes\<close> of \<^verbatim>\<open>sdp/plasma/xgc/loader.py\<close>. The source works on
  the whole array \<^verbatim>\<open>grid.phi3D\<close> at once; every operation in it is elementwise, so
  the model is the function of one toroidal angle, and the array version is its
  \<open>map\<close>. Plane numbers are Python integers (\<open>int\<close>): \<^verbatim>\<open>nextplane - 1\<close> may
  be \<open>-1\<close>. The first statement divides by the Python integer
  \<^verbatim>\<open>my_xgc.n_plane\<close>.
\<close>

definition dPHI :: "nat \<Rightarrow> real" where
  "dPHI n_plane = 2 * pi / real n_plane"

definition phi_planes :: "nat \<Rightarrow> real list" where
  "phi_planes n_plane = map (\<lambda>k. real k * dPHI n_plane) [0..<n_plane]"

text \<open>
  \<^verbatim>\<open>np.searchsorted(a, v, side='right')\<close> on a sorted array: the insertion index
  after every entry that is \<open>\<le> v\<close>, that is the number of such entries.
\<close>

definition searchsorted_right :: "real list \<Rightarrow> real \<Rightarrow> nat" where
  "searchsorted_right a v = length (filter (\<lambda>x. x \<le> v) a)"

definition get_interp_planes :: "nat \<Rightarrow> bool \<Rightarrow> real \<Rightarrow> py_error + int \<times> int" where
  "get_interp_planes n_plane CO_DIR phi =
     (if n_plane = 0 then Inl ZeroDivisionError
      else
        let i = int (searchsorted_right (phi_planes n_plane) phi)
        in if CO_DIR
           then (let nextplane = i; prevplane = nextplane - 1
                 in Inr (prevplane, if nextplane = int n_plane then 0 else nextplane))
           else (let prevplane = i; nextplane = prevplane - 1
                 in Inr (if prevplane = int n_plane then 0 else prevplane, nextplane)))"

section \<open>Field-line tracer\<close>

text \<open>
  \<^verbatim>\<open>find_interp_positions_v2_upgrade\<close>. Numbers are reals. The equilibrium
  interpolants \<^verbatim>\<open>BR_interp\<close>, \<^verbatim>\<open>BZ_interp\<close>, \<^verbatim>\<open>BPhi_interp\<close> are
  cubic triangular interpolants called as \<^verbatim>\<open>f(Z, R)\<close>; at a point outside the
  triangulation they answer with an entry that is not a number and is masked. A float
  is a \<open>real option\<close>, with \<open>None\<close> for a value that is not a finite number; an
  interpolant's answer is \<open>None\<close> at such a point.
\<close>

type_synonym interpolant = "real \<Rightarrow> real \<Rightarrow> real option"

record xgc_fields =
  BR_interp :: interpolant
  BZ_interp :: interpolant
  BPhi_interp :: interpolant

text \<open>
  \<^verbatim>\<open>a, b, c, Nstage = runge_kutta_explicit(2)\<close>: the function is imported from
  \<^verbatim>\<open>sdp/math/rungekutta.py\<close>, which is not part of the sources at hand, so the
  coefficient table of the explicit scheme is a parameter of the model. The nodes
  \<^verbatim>\<open>c\<close> are not used by the tracer.
\<close>

record tableau =
  rk_a :: "nat \<Rightarrow> nat \<Rightarrow> real"
  rk_b :: "nat \<Rightarrow> real"
  rk_Nstage :: nat

text \<open>
  Arithmetic of plain floats, as numpy does it on arrays: no operation raises, an
  operand that is not finite gives a result that is not finite, and so does a
  division by zero.
\<close>

definition np_div :: "real option \<Rightarrow> real option \<Rightarrow> real option" where
  "np_div x y = (case (x, y) of
      (Some a, Some b) \<Rightarrow> if b = 0 then None else Some (a / b)
    | _ \<Rightarrow> None)"

definition np_add :: "real option \<Rightarrow> real option \<Rightarrow> real option" where
  "np_add x y = (case (x, y) of (Some a, Some b) \<Rightarrow> Some (a + b) | _ \<Rightarrow> None)"

definition np_mul :: "real option \<Rightarrow> real option \<Rightarrow> real option" where
  "np_mul x y = (case (x, y) of (Some a, Some b) \<Rightarrow> Some (a * b) | _ \<Rightarrow> None)"

definition np_sub :: "real option \<Rightarrow> real option \<Rightarrow> real option" where
  "np_sub x y = (case (x, y) of (Some a, Some b) \<Rightarrow> Some (a - b) | _ \<Rightarrow> None)"

text \<open>
  An entry of a \<^verbatim>\<open>numpy.ma\<close> masked array: its data and its mask bit. The
  interpolants return \<^verbatim>\<open>np.ma.masked_invalid(values)\<close>: the data as computed and the
  mask set where they are not finite. A plain array has no mask.
\<close>

type_synonym ma_entry = "real option \<times> bool"

definition masked_invalid :: "real option \<Rightarrow> ma_entry" where
  "masked_invalid v = (v, v = None)"

definition plain :: "real \<Rightarrow> ma_entry" where
  "plain x = (Some x, False)"

text \<open>
  \<^verbatim>\<open>BRtemp[~np.isfinite(BRtemp)] = 0\<close>: where the data are not finite the assignment
  writes the data \<open>0\<close> and the mask bit of the value \<open>0\<close>, which is unset.
\<close>

definition clean :: "ma_entry \<Rightarrow> ma_entry" where
  "clean e = (case fst e of None \<Rightarrow> (Some 0, False) | Some x \<Rightarrow> e)"

text \<open>The data that this leaves in an entry returned by an interpolant.\<close>

definition cleaned :: "real option \<Rightarrow> real" where
  "cleaned v = (case v of None \<Rightarrow> 0 | Some x \<Rightarrow> x)"

text \<open>
  The operations of \<^verbatim>\<open>numpy.ma\<close> that the stage expressions use. The result of a
  binary operation is masked where an operand is; a division is masked also where its
  result is not finite. Under the mask of the result \<^verbatim>\<open>numpy.ma\<close> does not keep what
  the operation computed: it puts the data of the first operand back.
\<close>

definition ma_multiply :: "ma_entry \<Rightarrow> ma_entry \<Rightarrow> ma_entry" where
  "ma_multiply a b =
     (let m = (snd a \<or> snd b) in (if m then fst a else np_mul (fst a) (fst b), m))"

definition ma_add :: "ma_entry \<Rightarrow> ma_entry \<Rightarrow> ma_entry" where
  "ma_add a b =
     (let m = (snd a \<or> snd b) in (if m then fst a else np_add (fst a) (fst b), m))"

definition ma_true_divide :: "ma_entry \<Rightarrow> ma_entry \<Rightarrow> ma_entry" where
  "ma_true_divide a b =
     (let result = np_div (fst a) (fst b);
          m = (result = None \<or> snd a \<or> snd b)
      in (if m then fst a else result, m))"

text \<open>\<^verbatim>\<open>x**2\<close> on a masked array: the data of \<open>x\<close> stay where \<open>x\<close> is masked.\<close>

definition ma_power2 :: "ma_entry \<Rightarrow> ma_entry" where
  "ma_power2 a =
     (let result = (if snd a then fst a else np_mul (fst a) (fst a))
      in (result, snd a \<or> result = None))"

text \<open>
  \<^verbatim>\<open>np.sqrt\<close> applied to a masked array: the array wraps the result of the ufunc,
  masks it where the argument is masked or negative, and writes the fill value of the
  square root, \<open>0\<close>, as data there.
\<close>

definition np_sqrt :: "ma_entry \<Rightarrow> ma_entry" where
  "np_sqrt a =
     (let d = (snd a \<or> (case fst a of None \<Rightarrow> False | Some x \<Rightarrow> x < 0))
      in (if d then Some 0 else map_option sqrt (fst a), d))"

text \<open>
  The three derivatives of one stage, \<^verbatim>\<open>K[:,0,i]\<close>, \<^verbatim>\<open>K[:,1,i]\<close>, \<^verbatim>\<open>K[:,2,i]\<close>.
  \<^verbatim>\<open>Rtemp\<close> is a plain array; \<^verbatim>\<open>BPhitemp\<close> is used as the interpolant returns
  it. \<^verbatim>\<open>K\<close> is a plain array, so an assignment to it stores the data of the masked
  result. A stage with an entry that is not finite is \<open>None\<close>.
\<close>

definition field_rhs :: "xgc_fields \<Rightarrow> real \<Rightarrow> real \<Rightarrow> (real \<times> real \<times> real) option" where
  "field_rhs F Rtemp Ztemp =
     (let BPhitemp = masked_invalid (BPhi_interp F Ztemp Rtemp);
          BRtemp = clean (masked_invalid (BR_interp F Ztemp Rtemp));
          BZtemp = clean (masked_invalid (BZ_interp F Ztemp Rtemp));
          K0 = fst (ma_true_divide (ma_multiply (plain Rtemp) BRtemp) BPhitemp);
          K1 = fst (ma_true_divide (ma_multiply (plain Rtemp) BZtemp) BPhitemp);
          K2 = fst (ma_multiply
                 (np_sqrt (ma_add (ma_add (plain 1) (ma_power2 (ma_true_divide BRtemp BPhitemp)))
                                  (ma_power2 (ma_true_divide BZtemp BPhitemp))))
                 (plain Rtemp))
      in case (K0, K1, K2) of
           (Some k0, Some k1, Some k2) \<Rightarrow> Some (k0, k1, k2)
         | _ \<Rightarrow> None)"

text \<open>\<^verbatim>\<open>np.sum(w[:i] * K[:i])\<close>, the weights read from index \<open>j\<close> on.\<close>

fun wsum :: "(nat \<Rightarrow> real) \<Rightarrow> nat \<Rightarrow> real list \<Rightarrow> real" where
  "wsum w j [] = 0"
| "wsum w j (k # ks) = w j * k + wsum w (Suc j) ks"

text \<open>
  The loop \<^verbatim>\<open>for i in range(Nstage)\<close>; \<open>K\<close> holds the stages computed so far, so
  the stage being computed is number \<open>length K\<close>.
\<close>

fun rk_stages :: "tableau \<Rightarrow> xgc_fields \<Rightarrow> real \<Rightarrow> real \<Rightarrow> real \<Rightarrow> nat
    \<Rightarrow> (real \<times> real \<times> real) list \<Rightarrow> (real \<times> real \<times> real) list option" where
  "rk_stages T F step R Z 0 K = Some K"
| "rk_stages T F step R Z (Suc n) K =
     (let i = length K;
          Rtemp = R + step * wsum (rk_a T i) 0 (map fst K);
          Ztemp = Z + step * wsum (rk_a T i) 0 (map (fst \<circ> snd) K)
      in case field_rhs F Rtemp Ztemp of
           None \<Rightarrow> None
         | Some k \<Rightarrow> rk_stages T F step R Z n (K @ [k]))"

text \<open>
  The increments \<^verbatim>\<open>dR\<close>, \<^verbatim>\<open>dZ\<close>, \<^verbatim>\<open>ds\<close> of one pass of the loop body, and
  with them one pass: the state is \<open>(R, Z, s)\<close>.
\<close>

definition rk_increments :: "tableau \<Rightarrow> xgc_fields \<Rightarrow> real \<Rightarrow> real \<Rightarrow> real
    \<Rightarrow> (real \<times> real \<times> real) option" where
  "rk_increments T F step R Z =
     (case rk_stages T F step R Z (rk_Nstage T) [] of
        None \<Rightarrow> None
      | Some K \<Rightarrow>
          Some (step * wsum (rk_b T) 0 (map fst K),
                step * wsum (rk_b T) 0 (map (fst \<circ> snd) K),
                \<bar>step\<bar> * wsum (rk_b T) 0 (map (snd \<circ> snd) K)))"

definition rk_step :: "tableau \<Rightarrow> xgc_fields \<Rightarrow> real \<Rightarrow> real \<times> real \<times> real
    \<Rightarrow> (real \<times> real \<times> real) option" where
  "rk_step T F step st =
     (case st of (R, Z, s) \<Rightarrow>
        (case rk_increments T F step R Z of
           None \<Rightarrow> None
         | Some (dR, dZ, ds) \<Rightarrow> Some (R + dR, Z + dZ, s + ds)))"

text \<open>
  One of the two \<^verbatim>\<open>while ind.any()\<close> loops, for one query point. The first pass
  runs for every point (\<^verbatim>\<open>ind\<close> starts all true); afterwards a point takes part
  exactly while its remaining angle is not zero, and a point that has left is never
  touched again. \<open>None\<close> is a loop that does not end.
\<close>

partial_function (option) trace :: "tableau \<Rightarrow> xgc_fields \<Rightarrow> real \<Rightarrow> real \<Rightarrow> real
    \<Rightarrow> (real \<times> real \<times> real) option \<Rightarrow> (real \<times> real \<times> real) option option" where
  "trace T F sg dphi phi st =
     (let step = (if \<bar>phi\<bar> > dphi then sg * dphi else phi);
          phi' = phi - step;
          st' = Option.bind st (rk_step T F step)
      in if phi' \<noteq> 0 then trace T F sg dphi phi' st' else Some st')"

text \<open>\<^verbatim>\<open>phi_planes[k]\<close>: a negative index counts from the end.\<close>

definition np_index :: "real list \<Rightarrow> int \<Rightarrow> real option" where
  "np_index a k =
     (let n = int (length a); j = (if k < 0 then n + k else k)
      in if 0 \<le> j \<and> j < n then Some (a ! nat j) else None)"

text \<open>
  The angles still to cover, \<^verbatim>\<open>phiFWD\<close> and \<^verbatim>\<open>phiBWD\<close>, and the two signs.
  \<open>pn\<close> and \<open>pp\<close> are \<^verbatim>\<open>phi_planes[nextplane]\<close> and \<^verbatim>\<open>phi_planes[prevplane]\<close>.
\<close>

definition phiFWD0 :: "bool \<Rightarrow> int \<Rightarrow> real \<Rightarrow> real \<Rightarrow> real" where
  "phiFWD0 CO_DIR nextplane pn Phiwant =
     (if CO_DIR then (if nextplane = 0 then pi * 2 - Phiwant else pn - Phiwant)
      else pn - Phiwant)"

definition phiBWD0 :: "bool \<Rightarrow> int \<Rightarrow> real \<Rightarrow> real \<Rightarrow> real" where
  "phiBWD0 CO_DIR prevplane pp Phiwant =
     (if CO_DIR then pp - Phiwant
      else (if prevplane = 0 then pi * 2 - Phiwant else pp - Phiwant))"

definition FWD_sign :: "bool \<Rightarrow> real" where
  "FWD_sign CO_DIR = (if CO_DIR then 1 else - 1)"

definition BWD_sign :: "bool \<Rightarrow> real" where
  "BWD_sign CO_DIR = (if CO_DIR then - 1 else 1)"

text \<open>
  One entry of the result \<^verbatim>\<open>interp_positions\<close>: the triple \<open>(Z, R, fraction)\<close> of
  the previous plane (\<^verbatim>\<open>[0,:]\<close>) and that of the next plane (\<^verbatim>\<open>[1,:]\<close>).
\<close>

type_synonym triple = "real option \<times> real option \<times> real option"

definition interp_entry :: "(real \<times> real \<times> real) option \<Rightarrow> (real \<times> real \<times> real) option
    \<Rightarrow> triple \<times> triple" where
  "interp_entry bwd fwd =
     (let R_BWD = map_option fst bwd; Z_BWD = map_option (fst \<circ> snd) bwd;
          s_BWD = map_option (snd \<circ> snd) bwd;
          R_FWD = map_option fst fwd; Z_FWD = map_option (fst \<circ> snd) fwd;
          s_FWD = map_option (snd \<circ> snd) fwd;
          frac = np_div s_BWD (np_add s_BWD s_FWD)
      in ((Z_BWD, R_BWD, frac), (Z_FWD, R_FWD, np_sub (Some 1) frac)))"

text \<open>
  The two loops for one query point \<open>(Rwant, Zwant, Phiwant)\<close>: each starts from the
  point itself with arc length zero and steps by at most
  \<^verbatim>\<open>dphi = dPhi/Nstep\<close>.
\<close>

definition forward_trace :: "tableau \<Rightarrow> xgc_fields \<Rightarrow> nat \<Rightarrow> bool \<Rightarrow> nat
    \<Rightarrow> real \<times> real \<times> real \<Rightarrow> int \<Rightarrow> real \<Rightarrow> (real \<times> real \<times> real) option option" where
  "forward_trace T F n_plane CO_DIR Nstep want nextplane pn =
     (case want of (Rwant, Zwant, Phiwant) \<Rightarrow>
        trace T F (FWD_sign CO_DIR) (2 * pi / real n_plane / real Nstep)
          (phiFWD0 CO_DIR nextplane pn Phiwant) (Some (Rwant, Zwant, 0)))"

definition backward_trace :: "tableau \<Rightarrow> xgc_fields \<Rightarrow> nat \<Rightarrow> bool \<Rightarrow> nat
    \<Rightarrow> real \<times> real \<times> real \<Rightarrow> int \<Rightarrow> real \<Rightarrow> (real \<times> real \<times> real) option option" where
  "backward_trace T F n_plane CO_DIR Nstep want prevplane pp =
     (case want of (Rwant, Zwant, Phiwant) \<Rightarrow>
        trace T F (BWD_sign CO_DIR) (2 * pi / real n_plane / real Nstep)
          (phiBWD0 CO_DIR prevplane pp Phiwant) (Some (Rwant, Zwant, 0)))"

text \<open>
  The function for one query point with its stored plane numbers. The forward loop
  runs to its end before the backward loop starts. The outer \<open>None\<close> is a call that
  does not return. The divisions \<^verbatim>\<open>2*np.pi/my_xgc.n_plane\<close> and
  \<^verbatim>\<open>dPhi/Nstep\<close> are divisions of Python numbers.
\<close>

definition find_interp_positions_v2_upgrade :: "tableau \<Rightarrow> xgc_fields \<Rightarrow> nat \<Rightarrow> bool \<Rightarrow> nat
    \<Rightarrow> real \<times> real \<times> real \<Rightarrow> int \<Rightarrow> int \<Rightarrow> (py_error + triple \<times> triple) option" where
  "find_interp_positions_v2_upgrade T F n_plane CO_DIR Nstep want prevplane nextplane =
     (if n_plane = 0 \<or> Nstep = 0 then Some (Inl ZeroDivisionError)
      else
        case (np_index (phi_planes n_plane) nextplane,
              np_index (phi_planes n_plane) prevplane) of
          (Some pn, Some pp) \<Rightarrow>
            (case forward_trace T F n_plane CO_DIR Nstep want nextplane pn of
               None \<Rightarrow> None
             | Some fwd \<Rightarrow>
                 (case backward_trace T F n_plane CO_DIR Nstep want prevplane pp of
                    None \<Rightarrow> None
                  | Some bwd \<Rightarrow> Some (Inr (interp_entry bwd fwd))))
        | _ \<Rightarrow> Some (Inl IndexError))"

section \<open>Blending the two planes\<close>



section \<open>Example data\<close>

text \<open>
  A two-stage table (the midpoint rule) and a purely toroidal field of unit strength,
  defined everywhere; they serve as concrete inputs below.
\<close>

definition midpoint :: tableau where
  "midpoint = \<lparr>rk_a = (\<lambda>i j. if i = 1 \<and> j = 0 then 1 / 2 else 0),
               rk_b = (\<lambda>i. if i = 1 then 1 else 0), rk_Nstage = 2\<rparr>"

definition toroidal :: xgc_fields where
  "toroidal = \<lparr>BR_interp = (\<lambda>Z R. Some 0), BZ_interp = (\<lambda>Z R. Some 0),
               BPhi_interp = (\<lambda>Z R. Some 1)\<rparr>"

text \<open>A field whose interpolants are all masked for \<open>R > 2\<close>, as outside a mesh.\<close>

definition bounded_field :: xgc_fields where
  "bounded_field = \<lparr>BR_interp = (\<lambda>Z R. if R \<le> 2 then Some 0 else None),
                    BZ_interp = (\<lambda>Z R. if R \<le> 2 then Some 0 else None),
                    BPhi_interp = (\<lambda>Z R. if R \<le> 2 then Some 1 else None)\<rparr>"

section \<open>Equilibrium quantities on the grid\<close>

text \<open>
  The mesh as the interpolation uses it: \<open>inside\<close> says whether the triangle finder
  \<^verbatim>\<open>self.trifinder\<close> finds a triangle for the point \<open>(Z, R)\<close>, and \<open>hull_points\<close> is
  \<^verbatim>\<open>self.points[ConvexHull(self.points).vertices]\<close>, the boundary vertices as
  \<open>(Z, R)\<close> pairs. Every interpolant \<^verbatim>\<open>cubic_interp(self.triangulation, values,
  trifinder = self.trifinder)\<close> shares that finder: it is masked exactly where the
  finder finds no triangle, and so is its gradient. \<open>val_at\<close> and \<open>grad_at\<close> are the
  cubic surface through the node values and its gradient \<open>(d/dZ, d/dR)\<close>.
\<close>

record xgc_mesh =
  inside :: "real \<Rightarrow> real \<Rightarrow> bool"
  hull_points :: "(real \<times> real) list"

record node_field =
  val_at :: "real \<Rightarrow> real \<Rightarrow> real"
  grad_at :: "real \<Rightarrow> real \<Rightarrow> real \<times> real"

definition cubic_interp :: "xgc_mesh \<Rightarrow> node_field \<Rightarrow> real \<Rightarrow> real \<Rightarrow> real option" where
  "cubic_interp m f Z R = (if inside m Z R then Some (val_at f Z R) else None)"

definition cubic_gradient :: "xgc_mesh \<Rightarrow> node_field \<Rightarrow> real \<Rightarrow> real \<Rightarrow> (real \<times> real) option" where
  "cubic_gradient m f Z R = (if inside m Z R then Some (grad_at f Z R) else None)"

text \<open>\<^verbatim>\<open>np.argmin\<close>: the index of the first smallest entry; an empty argument raises.\<close>

fun np_argmin :: "real list \<Rightarrow> nat option" where
  "np_argmin [] = None"
| "np_argmin [x] = Some 0"
| "np_argmin (x # y # ys) =
     (case np_argmin (y # ys) of
        None \<Rightarrow> None
      | Some j \<Rightarrow> if x \<le> (y # ys) ! j then Some 0 else Some (Suc j))"

text \<open>
  \<^verbatim>\<open>np.argmin((Z-Z_boundary)**2 + (R-R_boundary)**2)\<close> and the vertex
  \<^verbatim>\<open>(Z_boundary[n], R_boundary[n])\<close> it selects.
\<close>

definition nearest_indices :: "(real \<times> real) list \<Rightarrow> real \<Rightarrow> real \<Rightarrow> nat option" where
  "nearest_indices boundary Z R =
     np_argmin (map (\<lambda>(Z_boundary, R_boundary). (Z - Z_boundary)\<^sup>2 + (R - R_boundary)\<^sup>2) boundary)"

text \<open>
  The value written at a grid point of the mask \<^verbatim>\<open>out_mask\<close>:
  \<^verbatim>\<open>a_n + (Zout-Zn)*grada_Z + (Rout-Rn)*grada_R\<close>, with \<^verbatim>\<open>a_n\<close> and the gradient
  taken from the interpolant at the selected vertex.
\<close>

definition a_out :: "xgc_mesh \<Rightarrow> node_field \<Rightarrow> real \<Rightarrow> real \<Rightarrow> py_error + real option" where
  "a_out m f Zout Rout =
     (case nearest_indices (hull_points m) Zout Rout of
        None \<Rightarrow> Inl ValueError
      | Some n \<Rightarrow>
          (case hull_points m ! n of (Zn, Rn) \<Rightarrow>
             Inr (case (cubic_interp m f Zn Rn, cubic_gradient m f Zn Rn) of
                    (Some a_n, Some (grada_Z, grada_R)) \<Rightarrow>
                       Some (a_n + (Zout - Zn) * grada_Z + (Rout - Rn) * grada_R)
                  | _ \<Rightarrow> None)))"

text \<open>
  An interpolated array with the entries of \<^verbatim>\<open>out_mask\<close> overwritten, at one grid
  point: \<^verbatim>\<open>A_on_grid = A_interp(Z2D,R2D); A_on_grid[out_mask] = A_out\<close>. The mask is
  that of \<^verbatim>\<open>psi_on_grid\<close> for every quantity.
\<close>

definition on_grid_extrapolated :: "xgc_mesh \<Rightarrow> node_field \<Rightarrow> node_field \<Rightarrow> real \<Rightarrow> real
    \<Rightarrow> py_error + real option" where
  "on_grid_extrapolated m psi f Z R =
     (let out_mask = (cubic_interp m psi Z R = None)
      in if out_mask then a_out m f Z R else Inr (cubic_interp m f Z R))"

text \<open>
  The equilibrium part of \<^verbatim>\<open>interpolate_all_on_grid_2D\<close> at one grid point \<open>(Z, R)\<close>.
  The profiles \<^verbatim>\<open>te0_sp\<close>, \<^verbatim>\<open>ti0_sp\<close>, \<^verbatim>\<open>ne0_sp\<close>, \<^verbatim>\<open>ni0_sp\<close> are
  \<^verbatim>\<open>interp1d\<close> objects built with a fill value, so they answer at every finite
  \<open>psi\<close>.
\<close>

record profiles =
  te0_sp :: "real \<Rightarrow> real"
  ti0_sp :: "real \<Rightarrow> real"
  ne0_sp :: "real \<Rightarrow> real"
  ni0_sp :: "real \<Rightarrow> real"

record eq_on_grid =
  psi_on_grid :: "real option"
  B_on_grid :: "real option"
  te0_on_grid :: "real option"
  ti0_on_grid :: "real option"
  ne0_on_grid :: "real option"
  ni0_on_grid :: "real option"

definition interpolate_eq_on_grid_2D :: "xgc_mesh \<Rightarrow> profiles \<Rightarrow> node_field \<Rightarrow> node_field
    \<Rightarrow> real \<Rightarrow> real \<Rightarrow> py_error + eq_on_grid" where
  "interpolate_eq_on_grid_2D m sp psi B_total Z R =
     (case on_grid_extrapolated m psi psi Z R of
        Inl e \<Rightarrow> Inl e
      | Inr psi_g \<Rightarrow>
          (case on_grid_extrapolated m psi B_total Z R of
             Inl e \<Rightarrow> Inl e
           | Inr B_g \<Rightarrow>
               Inr \<lparr>psi_on_grid = psi_g, B_on_grid = B_g,
                    te0_on_grid = map_option (te0_sp sp) psi_g,
                    ti0_on_grid = map_option (ti0_sp sp) psi_g,
                    ne0_on_grid = map_option (ne0_sp sp) psi_g,
                    ni0_on_grid = map_option (ni0_sp sp) psi_g\<rparr>))"

text \<open>
  The equilibrium part of \<^verbatim>\<open>interpolate_all_on_grid_3D\<close> at one grid point, for the
  two values of \<^verbatim>\<open>self.equilibrium_mesh\<close> that the function knows. With \<open>'3D'\<close> the
  point is \<open>(z3D, r3D, phi3D)\<close> and the arrays are the interpolants' answers as they
  come; with \<open>'2D'\<close> the point is \<open>(Z2D, R2D)\<close> and the arrays are treated as in 2D.
  With any other value no equilibrium array is assigned.
\<close>

record eq_on_grid_3D =
  psi_on_grid3 :: "real option"
  BX_on_grid :: "real option"
  BY_on_grid :: "real option"
  BZ_on_grid :: "real option"
  B_on_grid3 :: "real option"
  te_on_grid :: "real option"
  ti_on_grid :: "real option"
  ne0_on_grid3 :: "real option"
  ni0_on_grid3 :: "real option"

record eq_on_grid_2D3D =
  psi_on_grid2 :: "real option"
  BR_on_grid :: "real option"
  BZ_on_grid2 :: "real option"
  BPhi_on_grid :: "real option"
  B_on_grid2 :: "real option"
  te0_on_grid2 :: "real option"
  ti0_on_grid2 :: "real option"
  ne0_on_grid2 :: "real option"
  ni0_on_grid2 :: "real option"

definition np_neg :: "real option \<Rightarrow> real option" where
  "np_neg x = map_option uminus x"

definition np_scale :: "real option \<Rightarrow> real \<Rightarrow> real option" where
  "np_scale x c = map_option (\<lambda>v. v * c) x"

definition np_norm3 :: "real option \<Rightarrow> real option \<Rightarrow> real option \<Rightarrow> real option" where
  "np_norm3 x y z = (case (x, y, z) of
      (Some a, Some b, Some c) \<Rightarrow> Some (sqrt (a\<^sup>2 + b\<^sup>2 + c\<^sup>2))
    | _ \<Rightarrow> None)"

definition interpolate_eq_on_grid_3D_style3D :: "xgc_mesh \<Rightarrow> profiles \<Rightarrow> node_field \<Rightarrow> node_field
    \<Rightarrow> node_field \<Rightarrow> node_field \<Rightarrow> real \<Rightarrow> real \<Rightarrow> real \<Rightarrow> eq_on_grid_3D" where
  "interpolate_eq_on_grid_3D_style3D m sp psi BR BZ BPhi z3D r3D phi3D =
     (let psi_g = cubic_interp m psi z3D r3D;
          BX = np_add (np_scale (np_neg (cubic_interp m BPhi z3D r3D)) (sin phi3D))
                      (np_scale (cubic_interp m BR z3D r3D) (cos phi3D));
          BY = cubic_interp m BZ z3D r3D;
          BZc = np_sub (np_scale (np_neg (cubic_interp m BR z3D r3D)) (sin phi3D))
                       (np_scale (cubic_interp m BPhi z3D r3D) (cos phi3D))
      in \<lparr>psi_on_grid3 = psi_g, BX_on_grid = BX, BY_on_grid = BY, BZ_on_grid = BZc,
          B_on_grid3 = np_norm3 BX BY BZc,
          te_on_grid = map_option (te0_sp sp) psi_g,
          ti_on_grid = map_option (ti0_sp sp) psi_g,
          ne0_on_grid3 = map_option (ne0_sp sp) psi_g,
          ni0_on_grid3 = map_option (ni0_sp sp) psi_g\<rparr>)"

definition interpolate_eq_on_grid_3D_style2D :: "xgc_mesh \<Rightarrow> profiles \<Rightarrow> node_field \<Rightarrow> node_field
    \<Rightarrow> node_field \<Rightarrow> node_field \<Rightarrow> real \<Rightarrow> real \<Rightarrow> py_error + eq_on_grid_2D3D" where
  "interpolate_eq_on_grid_3D_style2D m sp psi BR BZ BPhi Z R =
     (case (on_grid_extrapolated m psi psi Z R, on_grid_extrapolated m psi BR Z R,
            on_grid_extrapolated m psi BZ Z R, on_grid_extrapolated m psi BPhi Z R) of
        (Inr psi_g, Inr BR_g, Inr BZ_g, Inr BPhi_g) \<Rightarrow>
           Inr \<lparr>psi_on_grid2 = psi_g, BR_on_grid = BR_g, BZ_on_grid2 = BZ_g,
                BPhi_on_grid = BPhi_g, B_on_grid2 = np_norm3 BR_g BZ_g BPhi_g,
                te0_on_grid2 = map_option (te0_sp sp) psi_g,
                ti0_on_grid2 = map_option (ti0_sp sp) psi_g,
                ne0_on_grid2 = map_option (ne0_sp sp) psi_g,
                ni0_on_grid2 = map_option (ni0_sp sp) psi_g\<rparr>
      | _ \<Rightarrow> Inl ValueError)"

text \<open>
  A mesh on the unit square with its four corners as boundary vertices, and the field
  \<open>Z + 2 R\<close> with its gradient: concrete inputs for below.
\<close>

definition square_mesh :: xgc_mesh where
  "square_mesh = \<lparr>inside = (\<lambda>Z R. 0 \<le> Z \<and> Z \<le> 1 \<and> 0 \<le> R \<and> R \<le> 1),
                  hull_points = [(0, 0), (1, 0), (1, 1), (0, 1)]\<rparr>"

definition linear_field :: node_field where
  "linear_field = \<lparr>val_at = (\<lambda>Z R. Z + 2 * R), grad_at = (\<lambda>Z R. (1, 2))\<rparr>"

definition flat_profiles :: profiles where
  "flat_profiles = \<lparr>te0_sp = (\<lambda>psi. 1), ti0_sp = (\<lambda>psi. 1), ne0_sp = (\<lambda>psi. 1),
                    ni0_sp = (\<lambda>psi. 1)\<rparr>"

section \<open>Loading the fluctuations on a 3D grid\<close>

text \<open>
  \<^verbatim>\<open>load_fluctuations_3D_fluc_only\<close>, for one stored quantity. An array is the
  function from its indices to its entries. \<open>raw i j\<close> is what the file of time step
  \<^verbatim>\<open>time_steps[i]\<close> holds for plane \<open>j\<close> on the mesh nodes, the term
  \<^verbatim>\<open>np.swapaxes(fluc_mesh[name][...][:,j],0,1)\<close>. The working array
  \<^verbatim>\<open>phi_all\<close> starts as zeros and the only loop that adds file data to it is
  \<^verbatim>\<open>for i in range(1,len(self.time_steps))\<close>.
\<close>

definition all_3D :: "(nat \<Rightarrow> nat \<Rightarrow> nat \<Rightarrow> real) \<Rightarrow> nat \<Rightarrow> nat \<Rightarrow> nat \<Rightarrow> nat \<Rightarrow> real" where
  "all_3D raw nt j i node = (if i \<in> set [1..<nt] then 0 + raw i j node else 0)"

text \<open>\<^verbatim>\<open>np.average(phi_all, axis = 0)\<close> over the \<open>n_plane\<close> planes.\<close>

definition avg_tor :: "(nat \<Rightarrow> nat \<Rightarrow> nat \<Rightarrow> real) \<Rightarrow> nat \<Rightarrow> nat \<Rightarrow> nat \<Rightarrow> real" where
  "avg_tor a n_plane i node = sum_list (map (\<lambda>j. a j i node) [0..<n_plane]) / real n_plane"

text \<open>\<^verbatim>\<open>self.center_planes = np.arange(self.n_cross_section) * int(n_plane/n_cross_section)\<close>\<close>

definition center_planes :: "nat \<Rightarrow> nat \<Rightarrow> nat \<Rightarrow> nat" where
  "center_planes n_plane n_cross_section c = c * (n_plane div n_cross_section)"

text \<open>
  \<^verbatim>\<open>self.phi[j,...] = np.swapaxes(phi_all[(center_planes[j] + planes) % n_plane,:,:],0,1)
  - phi_avg_tor[:,np.newaxis,:]\<close>: the entry for cross-section \<open>c\<close>, time index \<open>i\<close>,
  the \<open>p\<close>-th plane of \<^verbatim>\<open>self.planes\<close> and a node.
\<close>

definition fluc_3D :: "(nat \<Rightarrow> nat \<Rightarrow> nat \<Rightarrow> real) \<Rightarrow> nat \<Rightarrow> nat \<Rightarrow> nat \<Rightarrow> nat list
    \<Rightarrow> nat \<Rightarrow> nat \<Rightarrow> nat \<Rightarrow> nat \<Rightarrow> real" where
  "fluc_3D raw nt n_plane n_cross_section planes c i p node =
     all_3D raw nt ((center_planes n_plane n_cross_section c + planes ! p) mod n_plane) i node
       - avg_tor (all_3D raw nt) n_plane i node"

text \<open>\<^verbatim>\<open>np.average(phi_avg_tor, axis=0)\<close>, the term added to the equilibrium profiles.\<close>

definition avg_tor_t :: "(nat \<Rightarrow> nat \<Rightarrow> nat \<Rightarrow> real) \<Rightarrow> nat \<Rightarrow> nat \<Rightarrow> nat \<Rightarrow> real" where
  "avg_tor_t raw nt n_plane node =
     sum_list (map (\<lambda>i. avg_tor (all_3D raw nt) n_plane i node) [0..<nt]) / real nt"

record fluctuations_3D =
  self_phi :: "nat \<Rightarrow> nat \<Rightarrow> nat \<Rightarrow> nat \<Rightarrow> real"
  self_nane :: "(nat \<Rightarrow> nat \<Rightarrow> nat \<Rightarrow> nat \<Rightarrow> real) option"
  self_dni :: "(nat \<Rightarrow> nat \<Rightarrow> nat \<Rightarrow> nat \<Rightarrow> real) option"
  self_ne0 :: "nat \<Rightarrow> real"
  self_ni0 :: "nat \<Rightarrow> real"

text \<open>
  The whole function: \<open>dpot\<close>, \<open>eden\<close>, \<open>iden\<close> are the three data sets of the files,
  \<open>ne0_in\<close> and \<open>ni0_in\<close> the profiles on the nodes before the call.
\<close>

definition load_fluctuations_3D_fluc_only :: "(nat \<Rightarrow> nat \<Rightarrow> nat \<Rightarrow> real)
    \<Rightarrow> (nat \<Rightarrow> nat \<Rightarrow> nat \<Rightarrow> real) \<Rightarrow> (nat \<Rightarrow> nat \<Rightarrow> nat \<Rightarrow> real) \<Rightarrow> bool \<Rightarrow> bool
    \<Rightarrow> nat \<Rightarrow> nat \<Rightarrow> nat \<Rightarrow> nat list \<Rightarrow> (nat \<Rightarrow> real) \<Rightarrow> (nat \<Rightarrow> real) \<Rightarrow> fluctuations_3D" where
  "load_fluctuations_3D_fluc_only dpot eden iden HaveElectron load_ions nt n_plane
       n_cross_section planes ne0_in ni0_in =
     \<lparr>self_phi = fluc_3D dpot nt n_plane n_cross_section planes,
      self_nane = (if HaveElectron then Some (fluc_3D eden nt n_plane n_cross_section planes)
                   else None),
      self_dni = (if load_ions then Some (fluc_3D iden nt n_plane n_cross_section planes)
                  else None),
      self_ne0 = (\<lambda>node. ne0_in node + avg_tor_t dpot nt n_plane node
                + (if HaveElectron then avg_tor_t eden nt n_plane node else 0)),
      self_ni0 = (\<lambda>node. ni0_in node + avg_tor_t dpot nt n_plane node
                + (if load_ions then avg_tor_t iden nt n_plane node else 0))\<rparr>"

text \<open>
  The toroidal average of the file data themselves, and file data for two planes, one
  time step and any number of nodes: \<open>1\<close> on plane \<open>0\<close> and \<open>3\<close> on plane \<open>1\<close>.
\<close>

definition raw_avg_tor :: "(nat \<Rightarrow> nat \<Rightarrow> nat \<Rightarrow> real) \<Rightarrow> nat \<Rightarrow> nat \<Rightarrow> nat \<Rightarrow> real" where
  "raw_avg_tor raw n_plane i node = sum_list (map (\<lambda>j. raw i j node) [0..<n_plane]) / real n_plane"

definition two_plane_data :: "nat \<Rightarrow> nat \<Rightarrow> nat \<Rightarrow> real" where
  "two_plane_data i j node = (if j = 0 then 1 else 3)"

section \<open>The loader object\<close>

text \<open>
  The part of an \<^verbatim>\<open>XGC_Loader\<close> that the operations below read or write. A grid
  object is known by its class and an identity. The arrays on the grid are attributes
  that exist only once some method has assigned them: \<open>arrays\<close> maps an attribute
  name to its array, and reading a name that is not there raises
  \<^verbatim>\<open>AttributeError\<close>.
\<close>

datatype grid_obj = Cartesian2D nat | Cartesian3D nat | OtherGrid nat

record ndarray =
  shape :: "nat list"
  item :: "nat list \<Rightarrow> real"

definition np_zeros :: "nat list \<Rightarrow> ndarray" where
  "np_zeros sh = \<lparr>shape = sh, item = (\<lambda>_. 0)\<rparr>"

record loader =
  grid :: grid_obj
  dimension :: int
  Fluc_Only :: bool
  Equilibrium_Only :: bool
  HaveElectron :: bool
  load_ions :: bool
  n_cross_section :: nat
  time_steps :: "nat list"
  arrays :: "string \<rightharpoonup> ndarray"

text \<open>
  The first statements of the fluctuation part of \<^verbatim>\<open>interpolate_all_on_grid_3D\<close>,
  which create the arrays on the grid; \<open>r3D_shape\<close> is \<^verbatim>\<open>r3D.shape\<close>. The result is
  the exception raised, if any, and the object as the statements leave it.
\<close>

definition create_fluctuations_on_grid_3D :: "nat list \<Rightarrow> loader \<Rightarrow> py_error option \<times> loader" where
  "create_fluctuations_on_grid_3D r3D_shape self =
     (if \<not> Equilibrium_Only self then
        let dne = np_zeros ([n_cross_section self, length (time_steps self)] @ take 3 r3D_shape);
            s1 = self\<lparr>arrays := (arrays self)(''dne_ad_on_grid'' \<mapsto> dne)\<rparr>;
            s2 = (if HaveElectron s1
                  then s1\<lparr>arrays := (arrays s1)(''nane_on_grid'' \<mapsto> np_zeros (shape dne))\<rparr>
                  else s1)
        in if load_ions s2 then
             (case arrays s2 ''dni_ad_on_grid'' of
                None \<Rightarrow> (Some AttributeError, s2)
              | Some a \<Rightarrow> (None, s2\<lparr>arrays := (arrays s2)(''dni_on_grid'' \<mapsto> np_zeros (shape a))\<rparr>))
           else (None, s2)
      else (None, self))"

text \<open>
  A loader as \<^verbatim>\<open>__init__\<close> has it on a 3D grid with \<^verbatim>\<open>load_ions = True\<close> when
  it reaches \<^verbatim>\<open>interpolate_all_on_grid_3D\<close>: no method called before assigns an
  array on the grid (the only assignment to \<^verbatim>\<open>dni_ad_on_grid\<close> is in
  \<^verbatim>\<open>interpolate_all_on_grid_2D\<close>).
\<close>

definition ion_loader_3D :: loader where
  "ion_loader_3D = \<lparr>grid = Cartesian3D 0, dimension = 3, Fluc_Only = True,
                    Equilibrium_Only = False, HaveElectron = True, load_ions = True,
                    n_cross_section = 1, time_steps = [1], arrays = Map.empty\<rparr>"

text \<open>
  The same loader after a stay on a 2D grid of 5 by 5 points, whose interpolation has
  left \<^verbatim>\<open>dni_ad_on_grid\<close> behind with the shape of that grid.
\<close>

definition ion_loader_from_2D :: loader where
  "ion_loader_from_2D = ion_loader_3D\<lparr>arrays := [''dni_ad_on_grid'' \<mapsto> np_zeros [1, 1, 5, 5]]\<rparr>"

text \<open>
  \<^verbatim>\<open>change_grid\<close>. The methods it calls read the simulation files and build the
  interpolants; each is a parameter here, a function from the object to the exception
  it raises, if any, and the object as it leaves it. A raise ends the sequence.
\<close>

type_synonym loader_call = "loader \<Rightarrow> py_error option \<times> loader"

record loader_calls =
  m_ToCylindrical :: loader_call
  m_load_mesh_2D :: loader_call
  m_load_psi_2D :: loader_call
  m_load_B_2D :: loader_call
  m_load_mesh_psi_3D :: loader_call
  m_load_B_3D :: loader_call
  m_get_interp_planes :: loader_call
  m_load_eq_2D3D :: loader_call
  m_load_fluctuations_2D_fluc_only :: loader_call
  m_load_fluctuations_2D_all :: loader_call
  m_load_fluctuations_3D_fluc_only :: loader_call
  m_load_fluctuations_3D_all :: loader_call
  m_calculate_dne_ad_2D3D :: loader_call
  m_interpolate_all_on_grid_2D :: loader_call
  m_interpolate_all_on_grid_3D :: loader_call

fun run :: "loader_call list \<Rightarrow> loader \<Rightarrow> py_error option \<times> loader" where
  "run [] self = (None, self)"
| "run (f # fs) self =
     (case f self of
        (Some e, self') \<Rightarrow> (Some e, self')
      | (None, self') \<Rightarrow> run fs self')"

definition change_grid :: "loader_calls \<Rightarrow> grid_obj \<Rightarrow> loader \<Rightarrow> py_error option \<times> loader" where
  "change_grid M g self =
     (if dimension self = 2 then
        (case g of
           Cartesian2D _ \<Rightarrow> run [m_interpolate_all_on_grid_2D M] (self\<lparr>grid := g\<rparr>)
         | Cartesian3D _ \<Rightarrow>
             run [m_ToCylindrical M, m_load_mesh_psi_3D M, m_load_B_3D M, m_get_interp_planes M,
                  m_load_eq_2D3D M,
                  (\<lambda>s. if Fluc_Only s then m_load_fluctuations_3D_fluc_only M s
                        else m_load_fluctuations_3D_all M s),
                  m_calculate_dne_ad_2D3D M, m_interpolate_all_on_grid_3D M]
               (self\<lparr>dimension := 3, grid := g\<rparr>)
         | OtherGrid _ \<Rightarrow>
             (Some (XGC_Loader_Error
                ''NOT VALID GRID, please use either Cartesian3D or Cartesian2D grids.Grid NOT changed.''),
              self))
      else
        (case g of
           Cartesian3D _ \<Rightarrow> run [m_interpolate_all_on_grid_3D M] (self\<lparr>grid := g\<rparr>)
         | Cartesian2D _ \<Rightarrow>
             run [m_load_mesh_2D M, m_load_psi_2D M, m_load_B_2D M, m_load_eq_2D3D M,
                  (\<lambda>s. if Fluc_Only s then m_load_fluctuations_2D_fluc_only M s
                        else m_load_fluctuations_2D_all M s),
                  m_calculate_dne_ad_2D3D M, m_interpolate_all_on_grid_2D M]
               (self\<lparr>dimension := 2, grid := g\<rparr>)
         | OtherGrid _ \<Rightarrow>
             (Some (XGC_Loader_Error
                ''NOT VALID GRID, please use either Cartesian3D or Cartesian2D grids.Grid NOT changed.''),
              self)))"

section \<open>Properties of plane bracketing\<close>

lemma dPHI_pos: "0 < n \<Longrightarrow> 0 < dPHI n"
  by (simp add: dPHI_def)

lemma dPHI_times: "0 < n \<Longrightarrow> real n * dPHI n = 2 * pi"
  by (simp add: dPHI_def)

lemma searchsorted_right_le: "searchsorted_right a v \<le> length a"
  by (simp add: searchsorted_right_def)

lemma searchsorted_phi_planes_le: "searchsorted_right (phi_planes n) phi \<le> n"
  using searchsorted_right_le [of "phi_planes n" phi] by (simp add: phi_planes_def)

lemma searchsorted_phi_planes_pos:
  assumes "0 < n" "0 \<le> phi"
  shows "0 < searchsorted_right (phi_planes n) phi"
proof -
  have "[0..<n] = 0 # [Suc 0..<n]"
    using assms(1) by (simp add: upt_conv_Cons)
  then have "phi_planes n = 0 # map (\<lambda>k. real k * dPHI n) [Suc 0..<n]"
    by (simp add: phi_planes_def)
  then show ?thesis
    using assms(2) by (simp add: searchsorted_right_def)
qed

lemma searchsorted_phi_planes_count:
  "searchsorted_right (phi_planes n) phi = card {k. k < n \<and> real k * dPHI n \<le> phi}"
proof -
  have "searchsorted_right (phi_planes n) phi
      = length (filter (\<lambda>k. real k * dPHI n \<le> phi) [0..<n])"
    by (simp add: searchsorted_right_def phi_planes_def filter_map comp_def)
  also have "\<dots> = card (set (filter (\<lambda>k. real k * dPHI n \<le> phi) [0..<n]))"
    by (rule distinct_card [symmetric]) simp
  also have "set (filter (\<lambda>k. real k * dPHI n \<le> phi) [0..<n])
      = {k. k < n \<and> real k * dPHI n \<le> phi}"
    by auto
  finally show ?thesis .
qed

lemma searchsorted_phi_planes_last:
  assumes "0 < n" "real (n - 1) * dPHI n \<le> phi"
  shows "searchsorted_right (phi_planes n) phi = n"
proof -
  have "{k. k < n \<and> real k * dPHI n \<le> phi} = {..<n}"
  proof (rule set_eqI, rule iffI)
    fix k assume "k \<in> {..<n}"
    then have kn: "k < n" by simp
    then have "real k \<le> real (n - 1)" by simp
    then have "real k * dPHI n \<le> real (n - 1) * dPHI n"
      using dPHI_pos [OF assms(1)] by (simp add: mult_right_mono)
    with assms(2) kn show "k \<in> {k. k < n \<and> real k * dPHI n \<le> phi}" by simp
  qed simp
  then show ?thesis
    by (simp add: searchsorted_phi_planes_count)
qed

text \<open>
  C3. For a toroidal angle in \<open>[0, 2\<pi>)\<close> and \<open>P > 0\<close> planes, both plane numbers
  returned by \<^verbatim>\<open>get_interp_planes\<close> lie in \<open>0..P-1\<close>, in either field direction.
  For an angle in the last sector \<open>[2\<pi>(P-1)/P, 2\<pi>)\<close> the co-current direction
  gives previous plane \<open>P-1\<close> and next plane \<open>0\<close>, and the counter-current
  direction gives previous plane \<open>0\<close> and next plane \<open>P-1\<close>.
\<close>

theorem get_interp_planes_range_wrap:
  assumes "0 < P" "0 \<le> phi" "phi < 2 * pi"
  shows "(\<exists>prevplane nextplane.
            get_interp_planes P CO_DIR phi = Inr (prevplane, nextplane)
          \<and> 0 \<le> prevplane \<and> prevplane < int P \<and> 0 \<le> nextplane \<and> nextplane < int P)
       \<and> (2 * pi * real (P - 1) / real P \<le> phi \<longrightarrow>
            get_interp_planes P True phi = Inr (int P - 1, 0)
          \<and> get_interp_planes P False phi = Inr (0, int P - 1))"
proof -
  let ?i = "searchsorted_right (phi_planes P) phi"
  have lo: "0 < ?i" using assms(1,2) by (rule searchsorted_phi_planes_pos)
  have hi: "?i \<le> P" by (rule searchsorted_phi_planes_le)
  have range: "\<exists>prevplane nextplane.
            get_interp_planes P CO_DIR phi = Inr (prevplane, nextplane)
          \<and> 0 \<le> prevplane \<and> prevplane < int P \<and> 0 \<le> nextplane \<and> nextplane < int P"
    using lo hi assms(1) by (auto simp: get_interp_planes_def Let_def)
  have wrap: "get_interp_planes P True phi = Inr (int P - 1, 0)
          \<and> get_interp_planes P False phi = Inr (0, int P - 1)"
    if h: "2 * pi * real (P - 1) / real P \<le> phi"
  proof -
    have "real (P - 1) * dPHI P = 2 * pi * real (P - 1) / real P"
      by (simp add: dPHI_def)
    with h have "real (P - 1) * dPHI P \<le> phi" by simp
    then have "?i = P" using assms(1) searchsorted_phi_planes_last by blast
    then show ?thesis using assms(1) by (simp add: get_interp_planes_def Let_def)
  qed
  from range wrap show ?thesis by blast
qed

theorem get_interp_planes_range_wrap_witness:
  "get_interp_planes 16 True (2 * pi * 31 / 32) = Inr (15, 0)
 \<and> get_interp_planes 16 False (2 * pi * 31 / 32) = Inr (0, 15)"
proof -
  have a: "(0::nat) < 16" by simp
  have b: "(0::real) \<le> 2 * pi * 31 / 32" by simp
  have c: "2 * pi * 31 / 32 < 2 * pi" using pi_gt_zero by simp
  have d: "2 * pi * real (16 - 1 :: nat) / real (16::nat) \<le> 2 * pi * 31 / 32"
    using pi_gt_zero by simp
  show ?thesis
    using get_interp_planes_range_wrap [OF a b c, of True] d by simp
qed

section \<open>Properties of the tracer\<close>

lemma trace_unfold_last:
  "\<bar>phi\<bar> \<le> dphi \<Longrightarrow> trace T F sg dphi phi st = Some (Option.bind st (rk_step T F phi))"
  by (subst trace.simps) (simp add: Let_def)

lemma trace_unfold_more:
  "\<bar>phi\<bar> > dphi \<Longrightarrow> phi - sg * dphi \<noteq> 0 \<Longrightarrow>
   trace T F sg dphi phi st = trace T F sg dphi (phi - sg * dphi) (Option.bind st (rk_step T F (sg * dphi)))"
  by (subst trace.simps) (simp add: Let_def)

lemma trace_unfold_exact:
  "\<bar>phi\<bar> > dphi \<Longrightarrow> phi - sg * dphi = 0 \<Longrightarrow>
   trace T F sg dphi phi st = Some (Option.bind st (rk_step T F (sg * dphi)))"
  by (subst trace.simps) (simp add: Let_def)

lemma searchsorted_floor:
  assumes "0 < P" "0 \<le> phi" "phi < 2 * pi"
  shows "searchsorted_right (phi_planes P) phi = Suc (nat \<lfloor>phi / dPHI P\<rfloor>)"
proof -
  let ?d = "dPHI P"
  let ?m = "nat \<lfloor>phi / ?d\<rfloor>"
  have d: "0 < ?d" using assms(1) by (rule dPHI_pos)
  have q: "0 \<le> phi / ?d" using d assms(2) by simp
  have "phi / ?d < real P"
    using d assms(3) dPHI_times [OF assms(1)] by (simp add: pos_divide_less_eq)
  then have mP: "?m < P" using q by (simp add: floor_less_iff nat_less_iff)
  have iff: "real k * ?d \<le> phi \<longleftrightarrow> k \<le> ?m" for k
  proof -
    have "real k * ?d \<le> phi \<longleftrightarrow> real k \<le> phi / ?d"
      using d by (simp add: pos_le_divide_eq)
    also have "\<dots> \<longleftrightarrow> int k \<le> \<lfloor>phi / ?d\<rfloor>"
      by (simp add: le_floor_iff)
    also have "\<dots> \<longleftrightarrow> k \<le> ?m" using q by (simp add: le_nat_iff)
    finally show ?thesis .
  qed
  have "{k. k < P \<and> real k * ?d \<le> phi} = {..?m}"
    using mP by (auto simp: iff)
  then show ?thesis by (simp add: searchsorted_phi_planes_count)
qed

lemma np_index_phi_planes:
  "0 \<le> k \<Longrightarrow> k < int P \<Longrightarrow> np_index (phi_planes P) k = Some (real_of_int k * dPHI P)"
proof -
  assume k: "0 \<le> k" "k < int P"
  then have "nat k < P" by linarith
  then have "[0..<P] ! nat k = nat k" by simp
  then show ?thesis using k by (simp add: np_index_def phi_planes_def Let_def)
qed

lemma bracket_offsets:
  assumes "0 < P" "0 \<le> phi" "phi < 2 * pi"
    and "get_interp_planes P CO_DIR phi = Inr (prevplane, nextplane)"
  shows "\<exists>pn pp. np_index (phi_planes P) nextplane = Some pn
             \<and> np_index (phi_planes P) prevplane = Some pp
             \<and> 0 \<le> FWD_sign CO_DIR * phiFWD0 CO_DIR nextplane pn phi
             \<and> FWD_sign CO_DIR * phiFWD0 CO_DIR nextplane pn phi \<le> dPHI P
             \<and> 0 \<le> BWD_sign CO_DIR * phiBWD0 CO_DIR prevplane pp phi
             \<and> BWD_sign CO_DIR * phiBWD0 CO_DIR prevplane pp phi \<le> dPHI P"
proof -
  let ?d = "dPHI P"
  define m where "m = nat \<lfloor>phi / ?d\<rfloor>"
  have d: "0 < ?d" using assms(1) by (rule dPHI_pos)
  have i: "searchsorted_right (phi_planes P) phi = Suc m"
    unfolding m_def using assms(1-3) by (rule searchsorted_floor)
  have mP: "Suc m \<le> P" using searchsorted_phi_planes_le [of P phi] i by simp
  have q: "0 \<le> phi / ?d" using d assms(2) by simp
  have "real m \<le> phi / ?d" unfolding m_def using q by (simp add: of_nat_nat)
  then have lo: "real m * ?d \<le> phi" using d by (simp add: pos_le_divide_eq)
  have "phi / ?d < real m + 1" unfolding m_def using q by (simp add: of_nat_nat)
  then have hi: "phi < (real m + 1) * ?d" using d by (simp add: pos_divide_less_eq)
  have tp: "pi * 2 = real P * ?d" using dPHI_times [OF assms(1)] by simp
  show ?thesis
  proof (cases "Suc m = P")
    case True
    then have "real P = real (Suc m)" by simp
    then have P1: "real P = real m + 1" by simp
    show ?thesis
    proof (cases CO_DIR)
      case True
      with \<open>Suc m = P\<close> assms(1,4) i have pn: "prevplane = int m" "nextplane = 0"
        by (auto simp: get_interp_planes_def Let_def)
      have a: "np_index (phi_planes P) nextplane = Some (real_of_int 0 * ?d)"
        unfolding pn using assms(1) by (intro np_index_phi_planes) auto
      have b: "np_index (phi_planes P) prevplane = Some (real_of_int (int m) * ?d)"
        unfolding pn using mP by (intro np_index_phi_planes) auto
      show ?thesis
        using a b lo hi True pn tp P1
        by (simp add: FWD_sign_def BWD_sign_def phiFWD0_def phiBWD0_def algebra_simps)
    next
      case False
      with \<open>Suc m = P\<close> assms(1,4) i have pn: "prevplane = 0" "nextplane = int m"
        by (auto simp: get_interp_planes_def Let_def)
      have a: "np_index (phi_planes P) prevplane = Some (real_of_int 0 * ?d)"
        unfolding pn using assms(1) by (intro np_index_phi_planes) auto
      have b: "np_index (phi_planes P) nextplane = Some (real_of_int (int m) * ?d)"
        unfolding pn using mP by (intro np_index_phi_planes) auto
      show ?thesis
        using a b lo hi False pn tp P1
        by (simp add: FWD_sign_def BWD_sign_def phiFWD0_def phiBWD0_def algebra_simps)
    qed
  next
    case False
    then have lt: "Suc m < P" using mP by simp
    show ?thesis
    proof (cases CO_DIR)
      case True
      with False assms(1,4) i have pn: "prevplane = int m" "nextplane = int (Suc m)"
        by (auto simp: get_interp_planes_def Let_def)
      have a: "np_index (phi_planes P) nextplane = Some (real_of_int (int (Suc m)) * ?d)"
        unfolding pn using lt by (intro np_index_phi_planes) auto
      have b: "np_index (phi_planes P) prevplane = Some (real_of_int (int m) * ?d)"
        unfolding pn using mP by (intro np_index_phi_planes) auto
      show ?thesis
        using a b lo hi True pn
        by (simp add: FWD_sign_def BWD_sign_def phiFWD0_def phiBWD0_def algebra_simps)
    next
      case nco: False
      with False assms(1,4) i have pn: "prevplane = int (Suc m)" "nextplane = int m"
        by (auto simp: get_interp_planes_def Let_def)
      have a: "np_index (phi_planes P) prevplane = Some (real_of_int (int (Suc m)) * ?d)"
        unfolding pn using lt by (intro np_index_phi_planes) auto
      have b: "np_index (phi_planes P) nextplane = Some (real_of_int (int m) * ?d)"
        unfolding pn using mP by (intro np_index_phi_planes) auto
      show ?thesis
        using a b lo hi nco pn
        by (simp add: FWD_sign_def BWD_sign_def phiFWD0_def phiBWD0_def algebra_simps)
    qed
  qed
qed

lemma trace_invariant:
  assumes "0 < dphi" "sg = 1 \<or> sg = - 1" "0 \<le> sg * phi" "sg * phi \<le> real n * dphi"
    and inv: "\<And>step st. I st \<Longrightarrow> I (Option.bind st (rk_step T F step))"
    and "I st"
  shows "\<exists>r. trace T F sg dphi phi st = Some r \<and> I r"
  using assms(3,4,6)
proof (induction n arbitrary: phi st)
  case 0
  with assms(2) have "phi = 0" by auto
  then show ?case using assms(1) inv [OF "0.prems"(3)] by (simp add: trace_unfold_last)
next
  case (Suc n)
  have abs: "\<bar>phi\<bar> = sg * phi" using assms(2) Suc.prems(1) by auto
  show ?case
  proof (cases "\<bar>phi\<bar> > dphi")
    case False
    then show ?thesis using inv [OF Suc.prems(3)] by (simp add: trace_unfold_last)
  next
    case True
    show ?thesis
    proof (cases "phi - sg * dphi = 0")
      case True
      with \<open>\<bar>phi\<bar> > dphi\<close> show ?thesis
        using inv [OF Suc.prems(3)] by (simp add: trace_unfold_exact)
    next
      case False
      have ss: "sg * sg = 1" using assms(2) by auto
      have "sg * (phi - sg * dphi) = sg * phi - (sg * sg) * dphi"
        by (simp add: algebra_simps)
      then have e: "sg * (phi - sg * dphi) = sg * phi - dphi"
        by (simp only: ss mult_1)
      have 1: "0 \<le> sg * (phi - sg * dphi)" using True abs e by simp
      have 2: "sg * (phi - sg * dphi) \<le> real n * dphi"
      proof -
        have "sg * phi \<le> real n * dphi + dphi" using Suc.prems(2) by (simp add: algebra_simps)
        then show ?thesis by (simp only: e)
      qed
      from Suc.IH [OF 1 2 inv [OF Suc.prems(3)]] show ?thesis
        using True False by (simp add: trace_unfold_more)
    qed
  qed
qed


lemma trace_terminates:
  assumes "0 < dphi" "sg = 1 \<or> sg = - 1" "0 \<le> sg * phi" "sg * phi \<le> real n * dphi"
  shows "\<exists>r. trace T F sg dphi phi st = Some r"
  using trace_invariant [where I = "\<lambda>_. True", OF assms] by blast


lemma clean_masked_invalid: "clean (masked_invalid v) = plain (cleaned v)"
  by (cases v) (simp_all add: clean_def masked_invalid_def plain_def cleaned_def)

lemma ma_multiply_plain: "ma_multiply (plain a) (plain b) = plain (a * b)"
  by (simp add: ma_multiply_def plain_def np_mul_def)

lemma ma_true_divide_defined:
  "bp \<noteq> 0 \<Longrightarrow> ma_true_divide (plain a) (masked_invalid (Some bp)) = plain (a / bp)"
  by (simp add: ma_true_divide_def plain_def masked_invalid_def np_div_def)

lemma ma_true_divide_masked:
  "v = None \<or> v = Some 0 \<Longrightarrow> ma_true_divide (plain a) (masked_invalid v) = (Some a, True)"
  by (auto simp: ma_true_divide_def plain_def masked_invalid_def np_div_def)

lemma ma_power2_plain: "ma_power2 (plain a) = plain (a\<^sup>2)"
  by (simp add: ma_power2_def plain_def np_mul_def power2_eq_square)

lemma ma_power2_masked: "ma_power2 (Some a, True) = (Some a, True)"
  by (simp add: ma_power2_def)

lemma ma_add_plain: "ma_add (plain a) (plain b) = plain (a + b)"
  by (simp add: ma_add_def plain_def np_add_def)

lemma ma_add_masked_right: "ma_add (plain a) (x, True) = (Some a, True)"
  by (simp add: ma_add_def plain_def)

lemma ma_add_masked_left: "ma_add (Some a, True) y = (Some a, True)"
  by (simp add: ma_add_def)

lemma np_sqrt_plain: "0 \<le> a \<Longrightarrow> np_sqrt (plain a) = plain (sqrt a)"
  by (simp add: np_sqrt_def plain_def not_less)

lemma np_sqrt_masked: "np_sqrt (x, True) = (Some 0, True)"
  by (simp add: np_sqrt_def)

lemma ma_multiply_masked_left: "ma_multiply (x, True) y = (x, True)"
  by (simp add: ma_multiply_def)

lemma field_rhs_defined_eq:
  assumes "BPhi_interp F Z R = Some bp" "bp \<noteq> 0"
  shows "field_rhs F R Z
       = Some (R * cleaned (BR_interp F Z R) / bp, R * cleaned (BZ_interp F Z R) / bp,
               sqrt (1 + (cleaned (BR_interp F Z R) / bp)\<^sup>2
                       + (cleaned (BZ_interp F Z R) / bp)\<^sup>2) * R)"
proof -
  have nn: "0 \<le> 1 + (cleaned (BR_interp F Z R) / bp)\<^sup>2 + (cleaned (BZ_interp F Z R) / bp)\<^sup>2"
    by (simp add: add_nonneg_nonneg)
  show ?thesis
    unfolding field_rhs_def Let_def clean_masked_invalid assms(1) ma_multiply_plain
      ma_true_divide_defined [OF assms(2)] ma_power2_plain ma_add_plain np_sqrt_plain [OF nn]
    by (simp add: plain_def)
qed

lemma field_rhs_masked_eq:
  assumes "BPhi_interp F Z R = None \<or> BPhi_interp F Z R = Some 0"
  shows "field_rhs F R Z
       = Some (R * cleaned (BR_interp F Z R), R * cleaned (BZ_interp F Z R), 0)"
  unfolding field_rhs_def Let_def clean_masked_invalid ma_multiply_plain
    ma_true_divide_masked [OF assms] ma_power2_masked ma_add_masked_right ma_add_masked_left
    np_sqrt_masked ma_multiply_masked_left
  by simp

lemma field_rhs_total: "\<exists>k. field_rhs F R Z = Some k"
proof (cases "BPhi_interp F Z R")
  case None
  then show ?thesis using field_rhs_masked_eq [of F Z R] by simp
next
  case (Some bp)
  then show ?thesis
    using field_rhs_masked_eq [of F Z R] field_rhs_defined_eq [of F Z R bp]
    by (cases "bp = 0") simp_all
qed

lemma rk_stages_total: "\<exists>K'. rk_stages T F step R Z n K = Some K'"
proof (induction n arbitrary: K)
  case 0
  then show ?case by simp
next
  case (Suc n)
  let ?R = "R + step * wsum (rk_a T (length K)) 0 (map fst K)"
  let ?Z = "Z + step * wsum (rk_a T (length K)) 0 (map (fst \<circ> snd) K)"
  obtain k where "field_rhs F ?R ?Z = Some k" using field_rhs_total by blast
  then show ?case using Suc.IH by (simp add: Let_def)
qed

lemma rk_increments_total: "\<exists>dR dZ ds. rk_increments T F step R Z = Some (dR, dZ, ds)"
proof -
  obtain K where "rk_stages T F step R Z (rk_Nstage T) [] = Some K"
    using rk_stages_total by blast
  then show ?thesis by (simp add: rk_increments_def)
qed






lemma wsum_zeros: "\<forall>k\<in>set ks. k = 0 \<Longrightarrow> wsum w j ks = 0"
  by (induction ks arbitrary: j) auto

lemma rk_stages_straight:
  assumes "field_rhs F R Z = Some (0, 0, k2)"
    and "\<forall>k\<in>set K. fst k = 0 \<and> fst (snd k) = 0"
  shows "\<exists>K'. rk_stages T F step R Z n K = Some K' \<and> (\<forall>k\<in>set K'. fst k = 0 \<and> fst (snd k) = 0)"
  using assms(2)
proof (induction n arbitrary: K)
  case 0
  then show ?case by simp
next
  case (Suc n)
  have a: "wsum (rk_a T (length K)) 0 (map fst K) = 0"
    using Suc.prems by (intro wsum_zeros) auto
  have b: "wsum (rk_a T (length K)) 0 (map (fst \<circ> snd) K) = 0"
    using Suc.prems by (intro wsum_zeros) auto
  have "\<forall>k\<in>set (K @ [(0, 0, k2)]). fst k = 0 \<and> fst (snd k) = 0"
    using Suc.prems by auto
  from Suc.IH [OF this] show ?case
    using assms(1) by (simp add: a b Let_def)
qed

lemma rk_step_straight:
  assumes "field_rhs F R Z = Some (0, 0, k2)"
  shows "\<exists>s'. rk_step T F step (R, Z, s) = Some (R, Z, s')"
proof -
  have "\<forall>k\<in>set ([] :: (real \<times> real \<times> real) list). fst k = 0 \<and> fst (snd k) = 0"
    by simp
  from rk_stages_straight [OF assms this, of T step "rk_Nstage T"]
  obtain K where K: "rk_stages T F step R Z (rk_Nstage T) [] = Some K"
    and z: "\<forall>k\<in>set K. fst k = 0 \<and> fst (snd k) = 0"
    by blast
  have a: "wsum (rk_b T) 0 (map fst K) = 0" using z by (intro wsum_zeros) auto
  have b: "wsum (rk_b T) 0 (map (fst \<circ> snd) K) = 0" using z by (intro wsum_zeros) auto
  show ?thesis by (simp add: rk_step_def rk_increments_def K a b)
qed

lemma field_rhs_straight:
  assumes "BR_interp F Z R = Some 0" "BZ_interp F Z R = Some 0"
    "BPhi_interp F Z R = Some bp" "bp \<noteq> 0"
  shows "field_rhs F R Z = Some (0, 0, R)"
  using field_rhs_defined_eq [OF assms(3,4)] assms(1,2) by (simp add: cleaned_def)

lemma trace_straight:
  assumes "0 < dphi" "sg = 1 \<or> sg = - 1" "0 \<le> sg * phi" "sg * phi \<le> real n * dphi"
    and "field_rhs F R Z = Some (0, 0, k2)"
  shows "\<exists>s'. trace T F sg dphi phi (Some (R, Z, s)) = Some (Some (R, Z, s'))"
proof -
  let ?I = "\<lambda>st. \<exists>s'. st = Some (R, Z, s')"
  have inv: "?I (Option.bind st (rk_step T F step))" if "?I st" for step st
    using that rk_step_straight [OF assms(5)] by fastforce
  have "?I (Some (R, Z, s))" by simp
  from trace_invariant [where I = ?I, OF assms(1-4) inv this]
  show ?thesis by blast
qed

lemma planes4_quarter: "get_interp_planes 4 True (pi / 4) = Inr (0, 1)"
  by (simp add: get_interp_planes_def searchsorted_right_def phi_planes_def dPHI_def
      upt_rec [of 0 4] upt_rec [of 1 4] upt_rec [of 2 4] upt_rec [of 3 4] upt_rec [of 4 4] Let_def)















text \<open>
  C7. Straight field lines: if the interpolated \<open>B\<^sub>R\<close> and \<open>B\<^sub>Z\<close> are zero at the
  query point, where the toroidal component is defined and not zero, then both traces
  end and both landing positions returned by the tracer are the point's own \<open>(Z, R)\<close>.
  The query point is the first position at which the field is evaluated, and under this
  hypothesis no trace ever leaves it, so it is every position reached.
\<close>

theorem straight_field_identity:
  assumes "0 < P" "0 < Nstep" "0 \<le> Phi" "Phi < 2 * pi"
    and "get_interp_planes P CO_DIR Phi = Inr (prevplane, nextplane)"
    and "BR_interp F Z R = Some 0" "BZ_interp F Z R = Some 0"
    and "BPhi_interp F Z R = Some bp" "bp \<noteq> 0"
  shows "\<exists>frac0 frac1.
           find_interp_positions_v2_upgrade T F P CO_DIR Nstep (R, Z, Phi) prevplane nextplane
             = Some (Inr ((Some Z, Some R, frac0), (Some Z, Some R, frac1)))"
proof -
  obtain pn pp where pn: "np_index (phi_planes P) nextplane = Some pn"
    and pp: "np_index (phi_planes P) prevplane = Some pp"
    and f0: "0 \<le> FWD_sign CO_DIR * phiFWD0 CO_DIR nextplane pn Phi"
    and f1: "FWD_sign CO_DIR * phiFWD0 CO_DIR nextplane pn Phi \<le> dPHI P"
    and b0: "0 \<le> BWD_sign CO_DIR * phiBWD0 CO_DIR prevplane pp Phi"
    and b1: "BWD_sign CO_DIR * phiBWD0 CO_DIR prevplane pp Phi \<le> dPHI P"
    using bracket_offsets [OF assms(1,3,4,5)] by blast
  let ?dphi = "2 * pi / real P / real Nstep"
  have dphi: "0 < ?dphi" using assms(1,2) by simp
  have span: "dPHI P = real Nstep * ?dphi" using assms(1,2) by (simp add: dPHI_def)
  have sf: "FWD_sign CO_DIR = 1 \<or> FWD_sign CO_DIR = - 1" by (simp add: FWD_sign_def)
  have sb: "BWD_sign CO_DIR = 1 \<or> BWD_sign CO_DIR = - 1" by (simp add: BWD_sign_def)
  have f1': "FWD_sign CO_DIR * phiFWD0 CO_DIR nextplane pn Phi \<le> real Nstep * ?dphi"
    using f1 span by simp
  have b1': "BWD_sign CO_DIR * phiBWD0 CO_DIR prevplane pp Phi \<le> real Nstep * ?dphi"
    using b1 span by simp
  have rhs: "field_rhs F R Z = Some (0, 0, R)"
    by (rule field_rhs_straight [OF assms(6-9)])
  obtain s1 where fwd: "forward_trace T F P CO_DIR Nstep (R, Z, Phi) nextplane pn
      = Some (Some (R, Z, s1))"
    using trace_straight [OF dphi sf f0 f1' rhs, of T 0] unfolding forward_trace_def by auto
  obtain s0 where bwd: "backward_trace T F P CO_DIR Nstep (R, Z, Phi) prevplane pp
      = Some (Some (R, Z, s0))"
    using trace_straight [OF dphi sb b0 b1' rhs, of T 0] unfolding backward_trace_def by auto
  show ?thesis
    using assms(1,2) pn pp fwd bwd
    by (simp add: find_interp_positions_v2_upgrade_def interp_entry_def Let_def)
qed


theorem straight_field_identity_witness:
  "\<exists>frac0 frac1. find_interp_positions_v2_upgrade midpoint toroidal 4 True 10 (1, 0, pi / 4) 0 1
     = Some (Inr ((Some 0, Some 1, frac0), (Some 0, Some 1, frac1)))"
proof -
  have a: "(0::nat) < 4" "(0::nat) < 10" "0 \<le> pi / 4" "pi / 4 < 2 * pi"
    using pi_gt_zero by simp_all
  note b = planes4_quarter
  have c: "BR_interp toroidal 0 1 = Some 0" "BZ_interp toroidal 0 1 = Some 0"
    "BPhi_interp toroidal 0 1 = Some 1" "(1::real) \<noteq> 0"
    by (simp_all add: toroidal_def)
  show ?thesis
    by (rule straight_field_identity [OF a b c])
qed












text \<open>
  C6. In a stage, zero stands in for \<open>B\<^sub>R\<close> and for \<open>B\<^sub>Z\<close> where the interpolant
  gives no finite value, before the derivatives are formed, so that the derivative of
  \<open>R\<close> (of \<open>Z\<close>) of the stage is zero there. The derivatives stored for a stage are
  finite at every position, also where the toroidal component is masked or zero, so
  the increments \<open>dR\<close>, \<open>dZ\<close>, \<open>ds\<close> of a pass are finite for every point, every step
  and every coefficient table. No step of the pass raises.
\<close>

theorem rk_increments_finite:
  "(\<exists>dR dZ ds. rk_increments T F step R Z = Some (dR, dZ, ds))
 \<and> (BR_interp F Z R = None \<longrightarrow> (\<exists>k1 k2. field_rhs F R Z = Some (0, k1, k2)))
 \<and> (BZ_interp F Z R = None \<longrightarrow> (\<exists>k0 k2. field_rhs F R Z = Some (k0, 0, k2)))"
proof -
  have 1: "\<exists>dR dZ ds. rk_increments T F step R Z = Some (dR, dZ, ds)"
    by (rule rk_increments_total)
  have m: "BPhi_interp F Z R = None \<or> BPhi_interp F Z R = Some 0
         \<or> (\<exists>bp. BPhi_interp F Z R = Some bp \<and> bp \<noteq> 0)"
    by (cases "BPhi_interp F Z R") auto
  have 2: "\<exists>k1 k2. field_rhs F R Z = Some (0, k1, k2)" if "BR_interp F Z R = None"
    using m that field_rhs_masked_eq [of F Z R] field_rhs_defined_eq [of F Z R]
    by (auto simp: cleaned_def)
  have 3: "\<exists>k0 k2. field_rhs F R Z = Some (k0, 0, k2)" if "BZ_interp F Z R = None"
    using m that field_rhs_masked_eq [of F Z R] field_rhs_defined_eq [of F Z R]
    by (auto simp: cleaned_def)
  from 1 2 3 show ?thesis by (intro conjI impI)
qed

theorem rk_increments_finite_witness:
  "(\<exists>dR dZ ds. rk_increments midpoint bounded_field (pi / 20) 3 0 = Some (dR, dZ, ds))
 \<and> (\<exists>k1 k2. field_rhs bounded_field 3 0 = Some (0, k1, k2))
 \<and> (\<exists>k0 k2. field_rhs bounded_field 3 0 = Some (k0, 0, k2))"
proof -
  have b: "BR_interp bounded_field 0 3 = None" "BZ_interp bounded_field 0 3 = None"
    by (simp_all add: bounded_field_def)
  show ?thesis
    using rk_increments_finite [of midpoint bounded_field "pi / 20" 3 0] b by simp
qed




section \<open>Properties of the equilibrium on the grid\<close>

lemma np_argmin_Some: "xs \<noteq> [] \<Longrightarrow> \<exists>j. np_argmin xs = Some j"
  by (induction xs rule: np_argmin.induct) (auto split: option.splits)

lemma np_argmin_least:
  "np_argmin xs = Some j \<Longrightarrow> j < length xs \<and> (\<forall>x\<in>set xs. xs ! j \<le> x)"
proof (induction xs arbitrary: j rule: np_argmin.induct)
  case 1
  then show ?case by simp
next
  case (2 x)
  then show ?case by simp
next
  case (3 x y ys)
  from "3.prems" obtain i where i: "np_argmin (y # ys) = Some i"
    by (auto split: option.splits)
  from "3.IH" [OF i] have il: "i < length (y # ys)"
    and im: "\<forall>v\<in>set (y # ys). (y # ys) ! i \<le> v" by blast+
  show ?case
  proof (cases "x \<le> (y # ys) ! i")
    case True
    with "3.prems" i have "j = 0" by simp
    with True im show ?thesis by auto
  next
    case False
    with "3.prems" i have j: "j = Suc i" by simp
    from False have "(y # ys) ! i \<le> x" by simp
    with im il j show ?thesis by auto
  qed
qed

lemma nearest_indices_least:
  assumes "boundary \<noteq> []"
  shows "\<exists>n Zn Rn. nearest_indices boundary Z R = Some n \<and> n < length boundary
           \<and> boundary ! n = (Zn, Rn)
           \<and> (\<forall>(Zb, Rb)\<in>set boundary. (Z - Zn)\<^sup>2 + (R - Rn)\<^sup>2 \<le> (Z - Zb)\<^sup>2 + (R - Rb)\<^sup>2)"
proof -
  let ?d = "\<lambda>(Zb, Rb). (Z - Zb)\<^sup>2 + (R - Rb)\<^sup>2"
  from assms have "map ?d boundary \<noteq> []" by simp
  then obtain n where n: "np_argmin (map ?d boundary) = Some n"
    using np_argmin_Some by blast
  from np_argmin_least [OF n] have nl: "n < length boundary"
    and least: "\<forall>x\<in>set (map ?d boundary). map ?d boundary ! n \<le> x" by (simp, blast)
  obtain Zn Rn where p: "boundary ! n = (Zn, Rn)" by (cases "boundary ! n")
  have "map ?d boundary ! n = (Z - Zn)\<^sup>2 + (R - Rn)\<^sup>2" using nl p by simp
  with least have "\<forall>(Zb, Rb)\<in>set boundary. (Z - Zn)\<^sup>2 + (R - Rn)\<^sup>2 \<le> (Z - Zb)\<^sup>2 + (R - Rb)\<^sup>2"
    by auto
  with n nl p show ?thesis by (auto simp: nearest_indices_def)
qed


lemma on_grid_extrapolated_populated:
  assumes "hull_points m \<noteq> []"
    and "\<forall>(Zb, Rb)\<in>set (hull_points m). inside m Zb Rb"
  shows "\<exists>v. on_grid_extrapolated m psi f Z R = Inr (Some v)"
proof (cases "inside m Z R")
  case True
  then show ?thesis by (simp add: on_grid_extrapolated_def cubic_interp_def)
next
  case False
  obtain n Zn Rn where n: "nearest_indices (hull_points m) Z R = Some n"
    and nl: "n < length (hull_points m)" and p: "hull_points m ! n = (Zn, Rn)"
    using nearest_indices_least [OF assms(1)] by blast
  have "(Zn, Rn) \<in> set (hull_points m)" using nl p by (metis nth_mem)
  with assms(2) have "inside m Zn Rn" by auto
  then show ?thesis
    using False n p
    by (simp add: on_grid_extrapolated_def a_out_def cubic_interp_def cubic_gradient_def
        split: prod.splits)
qed

lemma square_mesh_eval:
  "interpolate_eq_on_grid_2D square_mesh flat_profiles linear_field linear_field 0 2
     = Inr \<lparr>psi_on_grid = Some 4, B_on_grid = Some 4, te0_on_grid = Some 1,
            ti0_on_grid = Some 1, ne0_on_grid = Some 1, ni0_on_grid = Some 1\<rparr>"
  by (simp add: interpolate_eq_on_grid_2D_def on_grid_extrapolated_def a_out_def
      nearest_indices_def cubic_interp_def cubic_gradient_def square_mesh_def linear_field_def
      flat_profiles_def)


text \<open>
  C8. At a grid point outside the mesh, where the boundary vertices are points of the
  mesh, the values written into \<^verbatim>\<open>psi_on_grid\<close> and \<^verbatim>\<open>B_on_grid\<close> by
  \<^verbatim>\<open>interpolate_all_on_grid_2D\<close> are
  \<open>a\<^sub>n + (Z - Z\<^sub>n) \<cdot> \<partial>a/\<partial>Z + (R - R\<^sub>n) \<cdot> \<partial>a/\<partial>R\<close>, where \<open>(Z\<^sub>n, R\<^sub>n)\<close> is a boundary
  vertex at the least Euclidean distance from the point and \<open>a\<^sub>n\<close> and the gradient
  are the interpolant's value and gradient at that vertex.
\<close>

theorem boundary_extrapolation:
  assumes "\<not> inside m Z R" "hull_points m \<noteq> []"
    and "\<forall>(Zb, Rb)\<in>set (hull_points m). inside m Zb Rb"
  shows "\<exists>Zn Rn out.
           (Zn, Rn) \<in> set (hull_points m)
         \<and> (\<forall>(Zb, Rb)\<in>set (hull_points m).
               sqrt ((Z - Zn)\<^sup>2 + (R - Rn)\<^sup>2) \<le> sqrt ((Z - Zb)\<^sup>2 + (R - Rb)\<^sup>2))
         \<and> cubic_interp m psi Zn Rn = Some (val_at psi Zn Rn)
         \<and> cubic_gradient m psi Zn Rn = Some (grad_at psi Zn Rn)
         \<and> cubic_interp m B_total Zn Rn = Some (val_at B_total Zn Rn)
         \<and> cubic_gradient m B_total Zn Rn = Some (grad_at B_total Zn Rn)
         \<and> interpolate_eq_on_grid_2D m sp psi B_total Z R = Inr out
         \<and> psi_on_grid out = Some (val_at psi Zn Rn + (Z - Zn) * fst (grad_at psi Zn Rn)
                                     + (R - Rn) * snd (grad_at psi Zn Rn))
         \<and> B_on_grid out = Some (val_at B_total Zn Rn + (Z - Zn) * fst (grad_at B_total Zn Rn)
                                     + (R - Rn) * snd (grad_at B_total Zn Rn))"
proof -
  obtain n Zn Rn where n: "nearest_indices (hull_points m) Z R = Some n"
    and nl: "n < length (hull_points m)" and p: "hull_points m ! n = (Zn, Rn)"
    and least: "\<forall>(Zb, Rb)\<in>set (hull_points m).
                  (Z - Zn)\<^sup>2 + (R - Rn)\<^sup>2 \<le> (Z - Zb)\<^sup>2 + (R - Rb)\<^sup>2"
    using nearest_indices_least [OF assms(2)] by blast
  have mem: "(Zn, Rn) \<in> set (hull_points m)" using nl p by (metis nth_mem)
  with assms(3) have ins: "inside m Zn Rn" by auto
  have dist: "\<forall>(Zb, Rb)\<in>set (hull_points m).
               sqrt ((Z - Zn)\<^sup>2 + (R - Rn)\<^sup>2) \<le> sqrt ((Z - Zb)\<^sup>2 + (R - Rb)\<^sup>2)"
    using least by auto
  have ext: "a_out m f Z R = Inr (Some (val_at f Zn Rn + (Z - Zn) * fst (grad_at f Zn Rn)
                                     + (R - Rn) * snd (grad_at f Zn Rn)))" for f
    using n p ins by (simp add: a_out_def cubic_interp_def cubic_gradient_def split: prod.splits)
  have og: "on_grid_extrapolated m psi f Z R
      = Inr (Some (val_at f Zn Rn + (Z - Zn) * fst (grad_at f Zn Rn)
                                     + (R - Rn) * snd (grad_at f Zn Rn)))" for f
    using assms(1) ext by (simp add: on_grid_extrapolated_def cubic_interp_def)
  show ?thesis
    apply (rule exI [of _ Zn], rule exI [of _ Rn])
    using mem dist ins by (simp add: interpolate_eq_on_grid_2D_def og cubic_interp_def cubic_gradient_def)
qed

theorem boundary_extrapolation_witness:
  "\<exists>Zn Rn out. (Zn, Rn) \<in> set (hull_points square_mesh)
     \<and> interpolate_eq_on_grid_2D square_mesh flat_profiles linear_field linear_field 0 2 = Inr out
     \<and> psi_on_grid out = Some (val_at linear_field Zn Rn + (0 - Zn) * fst (grad_at linear_field Zn Rn)
                                     + (2 - Rn) * snd (grad_at linear_field Zn Rn))"
proof -
  have a: "\<not> inside square_mesh 0 2" "hull_points square_mesh \<noteq> []"
    "\<forall>(Zb, Rb)\<in>set (hull_points square_mesh). inside square_mesh Zb Rb"
    by (simp_all add: square_mesh_def)
  show ?thesis
    using boundary_extrapolation [OF a, of linear_field linear_field flat_profiles] by blast
qed


text \<open>
  C5 at a failing input. With the equilibrium mesh style \<open>'3D'\<close>,
  \<^verbatim>\<open>interpolate_all_on_grid_3D\<close> keeps the interpolants' answers as they come: at
  the grid point \<open>(Z, R) = (0, 2)\<close> outside the unit-square mesh, \<open>psi\<close>, the field
  magnitude and the density profile on the grid are masked, whereas the 2D function
  fills the same point (\<open>square_mesh_eval\<close>) and every point
  (\<open>on_grid_extrapolated_populated\<close>).
\<close>

theorem style3D_masked_outside:
  "psi_on_grid3 (interpolate_eq_on_grid_3D_style3D square_mesh flat_profiles
       linear_field linear_field linear_field linear_field 0 2 0) = None
 \<and> B_on_grid3 (interpolate_eq_on_grid_3D_style3D square_mesh flat_profiles
       linear_field linear_field linear_field linear_field 0 2 0) = None
 \<and> ne0_on_grid3 (interpolate_eq_on_grid_3D_style3D square_mesh flat_profiles
       linear_field linear_field linear_field linear_field 0 2 0) = None"
  by (simp add: interpolate_eq_on_grid_3D_style3D_def cubic_interp_def square_mesh_def
      np_add_def np_sub_def np_scale_def np_neg_def np_norm3_def Let_def)

section \<open>Properties of the loader\<close>

lemma all_3D_first: "all_3D raw nt j 0 node = 0"
  by (simp add: all_3D_def)

lemma all_3D_later: "1 \<le> i \<Longrightarrow> i < nt \<Longrightarrow> all_3D raw nt j i node = raw i j node"
  by (simp add: all_3D_def)

lemma fluc_3D_later:
  assumes "1 \<le> i" "i < nt"
  shows "fluc_3D raw nt n_plane n_cs planes c i p node
       = raw i ((center_planes n_plane n_cs c + planes ! p) mod n_plane) node
         - raw_avg_tor raw n_plane i node"
  using assms by (simp add: fluc_3D_def avg_tor_def raw_avg_tor_def all_3D_later)

lemma fluc_3D_first: "fluc_3D raw nt n_plane n_cs planes c 0 p node = 0"
  by (simp add: fluc_3D_def avg_tor_def all_3D_first)


text \<open>
  C4 at a failing input. Two planes, one loaded time step, file data \<open>1\<close> on plane
  \<open>0\<close> and \<open>3\<close> on plane \<open>1\<close>: the potential stored for the first time index,
  cross-section \<open>0\<close>, plane \<open>0\<close> is \<open>0\<close>, while the file data minus their toroidal
  average are \<open>1 - 2 = -1\<close>; and nothing is added to the density profile, while the
  toroidal average of the file data is \<open>2\<close>. For the later time indices the stored
  fluctuation is the file data minus their toroidal average (\<open>fluc_3D_later\<close>).
\<close>

theorem first_step_not_loaded:
  "self_phi (load_fluctuations_3D_fluc_only two_plane_data two_plane_data two_plane_data
       True False 1 2 1 [0, 1] (\<lambda>node. 0) (\<lambda>node. 0)) 0 0 0 0 = 0
 \<and> two_plane_data 0 0 0 - raw_avg_tor two_plane_data 2 0 0 = - 1
 \<and> self_ne0 (load_fluctuations_3D_fluc_only two_plane_data two_plane_data two_plane_data
       True False 1 2 1 [0, 1] (\<lambda>node. 0) (\<lambda>node. 0)) 0 = 0
 \<and> raw_avg_tor two_plane_data 2 0 0 = 2"
proof -
  have u: "[0..<2] = [0, 1]" by (simp add: upt_rec)
  show ?thesis
    by (simp add: load_fluctuations_3D_fluc_only_def fluc_3D_first avg_tor_t_def avg_tor_def
        all_3D_first raw_avg_tor_def two_plane_data_def u)
qed


text \<open>
  C9 at a failing input. On a loader built on a 3D grid with ions loaded, the
  statement that creates the ion array on the grid reads the attribute
  \<^verbatim>\<open>dni_ad_on_grid\<close>, which no method has assigned: the call raises
  \<^verbatim>\<open>AttributeError\<close> and no array \<^verbatim>\<open>dni_on_grid\<close> exists afterwards. Where
  an earlier 2D interpolation has left that attribute behind, the ion array gets the
  shape of the 2D grid, not that of the 3D grid, which the electron array has.
\<close>

theorem ion_array_attribute_error:
  "fst (create_fluctuations_on_grid_3D [4, 4, 4] ion_loader_3D) = Some AttributeError
 \<and> arrays (snd (create_fluctuations_on_grid_3D [4, 4, 4] ion_loader_3D)) ''dni_on_grid'' = None
 \<and> map_option shape
      (arrays (snd (create_fluctuations_on_grid_3D [4, 4, 4] ion_loader_from_2D)) ''dni_on_grid'')
     = Some [1, 1, 5, 5]
 \<and> map_option shape
      (arrays (snd (create_fluctuations_on_grid_3D [4, 4, 4] ion_loader_from_2D)) ''dne_ad_on_grid'')
     = Some [1, 1, 4, 4, 4]"
  by (simp add: create_fluctuations_on_grid_3D_def ion_loader_3D_def ion_loader_from_2D_def
      np_zeros_def Let_def)

text \<open>
  C10. Called with an object that is neither a \<^verbatim>\<open>Cartesian2D\<close> nor a
  \<^verbatim>\<open>Cartesian3D\<close>, \<^verbatim>\<open>change_grid\<close> raises \<^verbatim>\<open>XGC_Loader_Error\<close> and leaves the
  loader as it was: the same grid, the same dimension and the same arrays on the grid,
  whatever the dimension was and whatever the loading methods do.
\<close>

theorem change_grid_invalid_atomic:
  "(\<exists>msg. fst (change_grid M (OtherGrid x) self) = Some (XGC_Loader_Error msg))
 \<and> snd (change_grid M (OtherGrid x) self) = self
 \<and> grid (snd (change_grid M (OtherGrid x) self)) = grid self
 \<and> dimension (snd (change_grid M (OtherGrid x) self)) = dimension self
 \<and> arrays (snd (change_grid M (OtherGrid x) self)) = arrays self"
  by (simp add: change_grid_def)

end
